theory Spec2Isabelle
  imports Main "HOL-Library.Word" "HOL-Library.Multiset"
begin

section \<open>Python values used by the transaction builder\<close>

text \<open>
  Python \<open>bytes\<close> are lists of 8-bit words. A Python \<open>str\<close> is the list of its code
  points, numbers below \<open>0x110000\<close>; a lone surrogate (\<open>0xD800\<close> to \<open>0xDFFF\<close>) is a
  code point a \<open>str\<close> may hold. \<open>py_str\<close> is the \<open>str\<close> of a literal. Python integers
  are unbounded: \<open>int\<close>.
\<close>

type_synonym byte = "8 word"

type_synonym pystr = "nat list"

definition py_str :: "string \<Rightarrow> pystr" where
  "py_str s = map of_char s"

text \<open>
  The exceptions the builder can raise. \<open>InsufficientFunds have need\<close> is the
  \<open>ValueError("Insufficient funds: have {have}, need {need}")\<close> of \<open>select_utxos\<close>;
  \<open>IndexError\<close> is a list index out of range; \<open>OverflowError\<close> is
  \<open>int.to_bytes\<close> on a value that does not fit; \<open>StructError\<close> is \<open>struct.error\<close> of
  \<open>struct.pack\<close>; \<open>ValueError\<close> is \<open>bytes([x])\<close> with \<open>x\<close> outside \<open>range(256)\<close>;
  \<open>UnicodeEncodeError\<close> is \<open>str.encode()\<close> on a lone surrogate;
  \<open>MalformedPointError\<close> and \<open>BadDigestError\<close> are raised by the \<open>ecdsa\<close> package.
\<close>

datatype error =
    InsufficientFunds int int
  | IndexError
  | OverflowError
  | StructError
  | ValueError
  | UnicodeEncodeError
  | MalformedPointError
  | BadDigestError

text \<open>\<open>n.to_bytes(1, 'little')\<close> for a length \<open>n\<close>.\<close>

definition to_bytes1 :: "nat \<Rightarrow> error + byte list" where
  "to_bytes1 n = (if n < 256 then Inr [of_nat n] else Inl OverflowError)"

text \<open>\<open>struct.pack("<I", v)\<close>: four bytes, least significant first.\<close>

definition pack_u32_le :: "int \<Rightarrow> error + byte list" where
  "pack_u32_le v =
     (if 0 \<le> v \<and> v < 4294967296
      then Inr [of_int v, of_int (v div 256), of_int (v div 65536), of_int (v div 16777216)]
      else Inl StructError)"

text \<open>\<open>bytes([x])\<close> for an integer \<open>x\<close>.\<close>

definition bytes1 :: "int \<Rightarrow> error + byte list" where
  "bytes1 x = (if 0 \<le> x \<and> x < 256 then Inr [of_int x] else Inl ValueError)"

text \<open>
  \<open>s.encode()\<close>: the UTF-8 bytes of the code points, one to four bytes each; a
  surrogate anywhere in the \<open>str\<close> raises.
\<close>

definition surrogate :: "nat \<Rightarrow> bool" where
  "surrogate c = (55296 \<le> c \<and> c \<le> 57343)"

definition utf8_char :: "nat \<Rightarrow> byte list" where
  "utf8_char c =
     (if c < 128 then [of_nat c]
      else if c < 2048 then [of_nat (192 + c div 64), of_nat (128 + c mod 64)]
      else if c < 65536
        then [of_nat (224 + c div 4096), of_nat (128 + c div 64 mod 64), of_nat (128 + c mod 64)]
      else [of_nat (240 + c div 262144), of_nat (128 + c div 4096 mod 64),
            of_nat (128 + c div 64 mod 64), of_nat (128 + c mod 64)])"

definition utf8 :: "pystr \<Rightarrow> byte list" where
  "utf8 s = concat (map utf8_char s)"

definition encode :: "pystr \<Rightarrow> error + byte list" where
  "encode s = (if list_ex surrogate s then Inl UnicodeEncodeError else Inr (utf8 s))"

text \<open>\<open>bs.hex()\<close>: two lowercase hexadecimal digits per byte.\<close>

definition hex_digit :: "nat \<Rightarrow> nat" where
  "hex_digit d = py_str ''0123456789abcdef'' ! (d mod 16)"

definition hex :: "byte list \<Rightarrow> pystr" where
  "hex bs = concat (map (\<lambda>b. [hex_digit (unat b div 16), hex_digit (unat b mod 16)]) bs)"

text \<open>
  List indexing \<open>xs[i]\<close>: a negative index counts from the end, and an index that
  falls outside the list raises \<open>IndexError\<close>. The position read is returned.
\<close>

definition resolve_index :: "nat \<Rightarrow> int \<Rightarrow> error + nat" where
  "resolve_index n i =
     (let j = (if i < 0 then int n + i else i)
      in if 0 \<le> j \<and> j < int n then Inr (nat j) else Inl IndexError)"

text \<open>
  The dictionary that \<open>build\<close> returns: the keys are the names written in the dict
  literal, in its order; values are integers, \<open>str\<close> values, lists and dictionaries.
\<close>

datatype pyval =
    VInt int
  | VStr pystr
  | VList "pyval list"
  | VDict "(string \<times> pyval) list"

section \<open>The entity classes\<close>

record utxo =
  txid :: pystr
  vout :: int
  amount :: int
  script_pubkey :: pystr

text \<open>
  \<open>TransactionInput\<close>; \<open>script_sig\<close> and \<open>witness\<close> start as \<open>None\<close>, \<open>sequence\<close> as
  \<open>0xffffffff\<close>.
\<close>

record transaction_input =
  in_txid :: pystr
  in_vout :: int
  script_sig :: "byte list option"
  witness :: "byte list option"
  sequence :: int

definition TransactionInput :: "utxo \<Rightarrow> transaction_input" where
  "TransactionInput u =
     \<lparr>in_txid = txid u, in_vout = vout u, script_sig = None, witness = None,
      sequence = 4294967295\<rparr>"

record transaction_output =
  out_amount :: int
  out_script_pubkey :: pystr

definition TransactionOutput :: "int \<Rightarrow> pystr \<Rightarrow> transaction_output" where
  "TransactionOutput a s = \<lparr>out_amount = a, out_script_pubkey = s\<rparr>"

section \<open>The builder\<close>

record builder =
  inputs :: "transaction_input list"
  outputs :: "transaction_output list"
  fee_rate :: int
  change_address :: "pystr option"

definition init_builder :: builder where
  "init_builder = \<lparr>inputs = [], outputs = [], fee_rate = 1, change_address = None\<rparr>"

subsection \<open>Coin selection\<close>

text \<open>
  \<open>sorted(available_utxos, key=lambda u: u.amount, reverse=True)\<close>: a stable sort by
  descending amount, which returns a new list.
\<close>

definition sorted_utxos :: "utxo list \<Rightarrow> utxo list" where
  "sorted_utxos us = sort_key (\<lambda>u. - amount u) us"

text \<open>
  The \<open>for\<close> loop of \<open>select_utxos\<close>, over the UTXOs still to visit, with the list
  selected and the total accumulated so far: each UTXO is appended and added before the
  total is compared with the target.
\<close>

fun select_loop :: "utxo list \<Rightarrow> int \<Rightarrow> utxo list \<Rightarrow> int \<Rightarrow> utxo list \<times> int" where
  "select_loop [] target_amount selected_utxos total_amount = (selected_utxos, total_amount)"
| "select_loop (u # us) target_amount selected_utxos total_amount =
     (let selected_utxos' = selected_utxos @ [u];
          total_amount' = total_amount + amount u
      in if total_amount' \<ge> target_amount then (selected_utxos', total_amount')
         else select_loop us target_amount selected_utxos' total_amount')"

text \<open>
  \<open>select_utxos\<close> returns the selection or raises; the builder and the list passed in
  are returned next to the result, as they are after the call.
\<close>

definition select_utxos ::
  "builder \<Rightarrow> utxo list \<Rightarrow> int \<Rightarrow> (error + utxo list) \<times> builder \<times> utxo list" where
  "select_utxos self available_utxos target_amount =
     (case select_loop (sorted_utxos available_utxos) target_amount [] 0 of
        (selected_utxos, total_amount) \<Rightarrow>
          if total_amount < target_amount
          then (Inl (InsufficientFunds total_amount target_amount), self, available_utxos)
          else (Inr selected_utxos, self, available_utxos))"

subsection \<open>Adding inputs and outputs, fee and change\<close>

definition add_input :: "builder \<Rightarrow> utxo \<Rightarrow> builder" where
  "add_input self u = self\<lparr>inputs := inputs self @ [TransactionInput u]\<rparr>"

definition add_output :: "builder \<Rightarrow> int \<Rightarrow> pystr \<Rightarrow> builder" where
  "add_output self a s = self\<lparr>outputs := outputs self @ [TransactionOutput a s]\<rparr>"

definition calculate_fee :: "builder \<Rightarrow> int" where
  "calculate_fee self =
     (let estimated_vsize = 10 + int (length (inputs self)) * 68 + int (length (outputs self)) * 34
      in estimated_vsize * fee_rate self)"

text \<open>
  The truth value of \<open>self.change_address\<close>: \<open>None\<close> and the empty string are false.
\<close>

definition truthy :: "pystr option \<Rightarrow> bool" where
  "truthy a = (case a of None \<Rightarrow> False | Some s \<Rightarrow> s \<noteq> [])"

definition add_change_output :: "builder \<Rightarrow> int \<Rightarrow> int \<Rightarrow> int \<Rightarrow> builder" where
  "add_change_output self input_amount output_amount fee =
     (let change_amount = input_amount - output_amount - fee
      in if change_amount \<ge> 546 \<and> truthy (change_address self)
         then add_output self change_amount (the (change_address self))
         else self)"

subsection \<open>Signature hash and signing\<close>

text \<open>
  \<open>hashlib.sha256(m).digest()\<close> is a function of the \<open>hashlib\<close> package, a parameter
  \<open>sha256\<close> of the model. The concatenation is evaluated from left to right, so the
  first operand that raises decides the error. The argument \<open>sig_hash_type\<close> is not read.
\<close>

definition create_signature_hash ::
  "(byte list \<Rightarrow> byte list) \<Rightarrow> builder \<Rightarrow> int \<Rightarrow> int \<Rightarrow> error + byte list" where
  "create_signature_hash sha256 self input_index sig_hash_type =
     (case pack_u32_le 1 of Inl e \<Rightarrow> Inl e | Inr version \<Rightarrow>
     (case to_bytes1 (length (inputs self)) of Inl e \<Rightarrow> Inl e | Inr input_count \<Rightarrow>
     (case resolve_index (length (inputs self)) input_index of Inl e \<Rightarrow> Inl e | Inr j \<Rightarrow>
     (case encode (in_txid (inputs self ! j)) of Inl e \<Rightarrow> Inl e | Inr txid_bytes \<Rightarrow>
     (case pack_u32_le (in_vout (inputs self ! j)) of Inl e \<Rightarrow> Inl e | Inr vout_bytes \<Rightarrow>
     (case to_bytes1 (length (outputs self)) of Inl e \<Rightarrow> Inl e | Inr output_count \<Rightarrow>
        Inr (sha256 (sha256
          (version @ input_count @ txid_bytes @ vout_bytes @ output_count)))))))))"

text \<open>
  The functions of the \<open>ecdsa\<close> package that \<open>sign_input\<close> calls, parameters of the
  model: \<open>SigningKey.from_string(private_key, curve=SECP256k1)\<close>, which raises on a
  malformed key; \<open>sign_digest(digest, sigencode=sigencode_der)\<close>, whose result may
  differ from call to call; \<open>get_verifying_key().to_string()\<close>.
\<close>

record 'k ecdsa =
  from_string :: "byte list \<Rightarrow> error + 'k"
  sign_digest :: "'k \<Rightarrow> byte list \<Rightarrow> error + byte list"
  to_string :: "'k \<Rightarrow> byte list"

text \<open>
  \<open>sign_input\<close> returns \<open>None\<close> or raises; the builder is returned next to the result,
  as it is after the call. The right-hand side of the assignment is evaluated before
  its target \<open>self.inputs[input_index]\<close>.
\<close>

definition sign_input ::
  "(byte list \<Rightarrow> byte list) \<Rightarrow> 'k ecdsa \<Rightarrow> builder \<Rightarrow> int \<Rightarrow> byte list \<Rightarrow> int
     \<Rightarrow> (error + unit) \<times> builder" where
  "sign_input sha256 lib self input_index private_key sig_hash_type =
     (case create_signature_hash sha256 self input_index sig_hash_type of
        Inl e \<Rightarrow> (Inl e, self) | Inr sig_hash \<Rightarrow>
     (case from_string lib private_key of Inl e \<Rightarrow> (Inl e, self) | Inr signing_key \<Rightarrow>
     (case sign_digest lib signing_key sig_hash of Inl e \<Rightarrow> (Inl e, self) | Inr der \<Rightarrow>
     (case bytes1 sig_hash_type of Inl e \<Rightarrow> (Inl e, self) | Inr suffix \<Rightarrow>
     (let signature = der @ suffix;
          public_key = to_string lib signing_key
      in
     (case to_bytes1 (length signature) of Inl e \<Rightarrow> (Inl e, self) | Inr sig_len \<Rightarrow>
     (case to_bytes1 (length public_key) of Inl e \<Rightarrow> (Inl e, self) | Inr key_len \<Rightarrow>
     (case resolve_index (length (inputs self)) input_index of
        Inl e \<Rightarrow> (Inl e, self) | Inr j \<Rightarrow>
        (Inr (),
         self\<lparr>inputs := (inputs self)[j := ((inputs self ! j)
           \<lparr>script_sig := Some (sig_len @ signature @ key_len @ public_key)\<rparr>)]\<rparr>)))))))))"

subsection \<open>Assembly\<close>

text \<open>\<open>input.script_sig.hex() if input.script_sig else ""\<close>: \<open>None\<close> and \<open>b""\<close> are false.\<close>

definition script_sig_hex :: "byte list option \<Rightarrow> pystr" where
  "script_sig_hex s = (case s of None \<Rightarrow> [] | Some bs \<Rightarrow> if bs \<noteq> [] then hex bs else [])"

definition input_dict :: "transaction_input \<Rightarrow> pyval" where
  "input_dict input =
     VDict [(''txid'', VStr (in_txid input)),
            (''vout'', VInt (in_vout input)),
            (''script_sig'', VStr (script_sig_hex (script_sig input))),
            (''sequence'', VInt (sequence input))]"

definition output_dict :: "transaction_output \<Rightarrow> pyval" where
  "output_dict output =
     VDict [(''amount'', VInt (out_amount output)),
            (''script_pubkey'', VStr (out_script_pubkey output))]"

text \<open>\<open>build\<close> returns the dictionary; the builder is returned next to it, as it is after the call.\<close>

definition build :: "builder \<Rightarrow> pyval \<times> builder" where
  "build self =
     (VDict [(''version'', VInt 1),
             (''inputs'', VList (map input_dict (inputs self))),
             (''outputs'', VList (map output_dict (outputs self))),
             (''locktime'', VInt 0)],
      self)"

section \<open>The serialisations as the specification words them\<close>

text \<open>
  The specification's digest input: a 4-byte little-endian version constant 1, a 1-byte
  input count, the selected input's transaction-id bytes, a 4-byte little-endian output
  index and a 1-byte output count. The bytes of a 32-bit word are taken by shifting.
\<close>

definition le32 :: "32 word \<Rightarrow> byte list" where
  "le32 w = [ucast w, ucast (drop_bit 8 w), ucast (drop_bit 16 w), ucast (drop_bit 24 w)]"

definition spec_serialization :: "byte \<Rightarrow> byte list \<Rightarrow> 32 word \<Rightarrow> byte \<Rightarrow> byte list" where
  "spec_serialization input_count txid_bytes vout_word output_count =
     le32 1 @ [input_count] @ txid_bytes @ le32 vout_word @ [output_count]"

text \<open>
  The specification's unlocking script \<open>[len(signature)][signature][len(pubkey)][pubkey]\<close>,
  each length a single byte.
\<close>

definition spec_unlocking_script :: "byte list \<Rightarrow> byte list \<Rightarrow> byte list" where
  "spec_unlocking_script signature public_key =
     [of_nat (length signature)] @ signature @ [of_nat (length public_key)] @ public_key"

section \<open>Example data\<close>

text \<open>
  The two UTXOs of the repository's test suite (100000 and 200000 satoshis), with short
  locking scripts; a UTXO whose output index needs 33 bits; a UTXO whose transaction id
  is the one code point \<open>0xD800\<close>; two UTXOs of 10 and -8 satoshis.
\<close>

definition utxo1 :: utxo where
  "utxo1 = \<lparr>txid = py_str ''abc123def456'', vout = 0, amount = 100000,
             script_pubkey = py_str ''76a914aa''\<rparr>"

definition utxo2 :: utxo where
  "utxo2 = \<lparr>txid = py_str ''def456abc123'', vout = 1, amount = 200000,
             script_pubkey = py_str ''76a914bb''\<rparr>"

definition utxo_vout33 :: utxo where
  "utxo_vout33 = \<lparr>txid = py_str ''abc123def456'', vout = 4294967296, amount = 100000,
                   script_pubkey = py_str ''76a914aa''\<rparr>"

definition utxo_surrogate :: utxo where
  "utxo_surrogate = \<lparr>txid = [55296], vout = 0, amount = 100000,
                      script_pubkey = py_str ''76a914aa''\<rparr>"



text \<open>
  Builders: one input and one output, as the signing test sets up; two inputs and one
  output; 256 inputs; one input with the 33-bit output index; one input with the
  surrogate transaction id; one input and 256 outputs; a change address and nothing else.
\<close>

definition builder1 :: builder where
  "builder1 = add_output (add_input init_builder utxo1) 50000 (py_str ''76a914test'')"

definition builder2 :: builder where
  "builder2 =
     add_output (add_input (add_input init_builder utxo1) utxo2) 50000 (py_str ''76a914test'')"

definition builder_surrogate :: builder where
  "builder_surrogate = add_input init_builder utxo_surrogate"

definition builder256 :: builder where
  "builder256 = init_builder\<lparr>inputs := replicate 256 (TransactionInput utxo1)\<rparr>"

definition builder_vout33 :: builder where
  "builder_vout33 = add_input init_builder utxo_vout33"

definition builder_256_outputs :: builder where
  "builder_256_outputs =
     (add_input init_builder utxo1)
       \<lparr>outputs := replicate 256 (TransactionOutput 1000 (py_str ''76a914test''))\<rparr>"

definition builder_change :: builder where
  "builder_change = init_builder\<lparr>change_address := Some (py_str ''76a914cc'')\<rparr>"

text \<open>
  Stand-ins for the two packages in the examples: a hash with 32-byte results, and a
  signer that accepts 32-byte keys, returns the DER encoding of \<open>r = 1, s = 1\<close> for a
  digest of at most 32 bytes and has a 64-byte public key.
\<close>

definition test_sha256 :: "byte list \<Rightarrow> byte list" where
  "test_sha256 m = replicate 32 (of_nat (length m))"

definition test_ecdsa :: "(byte list) ecdsa" where
  "test_ecdsa =
     \<lparr>from_string = (\<lambda>k. if length k = 32 then Inr k else Inl MalformedPointError),
      sign_digest = (\<lambda>k d. if length d \<le> 32 then Inr [48, 6, 2, 1, 1, 2, 1, 1]
                             else Inl BadDigestError),
      to_string = (\<lambda>k. replicate 64 0)\<rparr>"

definition test_key :: "byte list" where
  "test_key = replicate 32 7"

lemma builder1_simps:
  "length (inputs builder1) = 1" "length (outputs builder1) = 1"
  "in_vout (inputs builder1 ! 0) = 0" "in_txid (inputs builder1 ! 0) = py_str ''abc123def456''"
  by (simp_all add: builder1_def add_output_def add_input_def init_builder_def
      TransactionInput_def utxo1_def)

lemma builder1_update: "(inputs builder1)[0 := x] = [x]"
  by (simp add: builder1_def add_output_def add_input_def init_builder_def)

lemma builder2_simps:
  "length (inputs builder2) = 2" "length (outputs builder2) = 1"
  "in_vout (inputs builder2 ! Suc 0) = 1"
  "in_txid (inputs builder2 ! Suc 0) = py_str ''def456abc123''"
  by (simp_all add: builder2_def add_output_def add_input_def init_builder_def
      TransactionInput_def utxo2_def)

lemma builder2_update: "(inputs builder2)[1 := x] = [inputs builder2 ! 0, x]"
  by (simp add: builder2_def add_output_def add_input_def init_builder_def)

section \<open>Encoding a str\<close>

text \<open>A literal has no surrogate; a \<open>str\<close> without surrogates is encoded, any other raises.\<close>

lemma py_str_no_surrogate: "\<not> list_ex surrogate (py_str s)"
proof -
  have "\<not> surrogate (of_char c)" for c
  proof -
    have "of_char c < (256::nat)"
      by (cases c) simp
    then show ?thesis
      unfolding surrogate_def by linarith
  qed
  then show ?thesis
    by (simp add: py_str_def list_ex_iff)
qed

lemma encode_ok: "\<not> list_ex surrogate s \<Longrightarrow> encode s = Inr (utf8 s)"
  by (simp add: encode_def)

lemma encode_error: "list_ex surrogate s \<Longrightarrow> encode s = Inl UnicodeEncodeError"
  by (simp add: encode_def)

section \<open>Coin selection\<close>

text \<open>The sorted list is a rearrangement of the list passed in, in descending order of amount,
  and UTXOs of equal amount keep their order.\<close>

lemma sum_sorted_utxos: "sum_list (map amount (sorted_utxos us)) = sum_list (map amount us)"
proof -
  have "mset (map amount (sorted_utxos us)) = mset (map amount us)"
    by (simp add: sorted_utxos_def)
  then show ?thesis by (metis sum_mset_sum_list)
qed

lemma sorted_utxos_desc: "sorted (map (\<lambda>u. - amount u) (sorted_utxos us))"
  by (simp add: sorted_utxos_def)

lemma sorted_utxos_stable: "filter (\<lambda>u. amount u = a) (sorted_utxos us) = filter (\<lambda>u. amount u = a) us"
  using sort_key_stable[of "\<lambda>u. - amount u" "- a" us] by (simp add: sorted_utxos_def)

lemma sorted_utxos_descending:
  "sorted_wrt (\<lambda>a b. amount a \<ge> amount b) (sorted_utxos us)"
  using sorted_utxos_desc[of us] by (simp add: sorted_map)

text \<open>The loop returns a prefix of the list it visits, with the sum of its amounts.\<close>

lemma select_loop_prefix:
  "select_loop xs t sel tot = (sel', tot') \<Longrightarrow>
   \<exists>k\<le>length xs. sel' = sel @ take k xs \<and> tot' = tot + sum_list (map amount (take k xs))"
proof (induction xs arbitrary: sel tot)
  case Nil
  then show ?case by simp
next
  case (Cons u us)
  show ?case
  proof (cases "tot + amount u \<ge> t")
    case True
    with Cons.prems have "sel' = sel @ take 1 (u # us)" "tot' = tot + sum_list (map amount (take 1 (u # us)))"
      by (simp_all add: Let_def)
    then show ?thesis by (intro exI[of _ 1]) simp
  next
    case False
    with Cons.prems have "select_loop us t (sel @ [u]) (tot + amount u) = (sel', tot')"
      by (simp add: Let_def)
    from Cons.IH[OF this] obtain k where k: "k \<le> length us" "sel' = (sel @ [u]) @ take k us"
      "tot' = tot + amount u + sum_list (map amount (take k us))" by blast
    then show ?thesis by (intro exI[of _ "Suc k"]) simp
  qed
qed

lemma select_loop_sum:
  assumes "select_loop xs t [] 0 = (sel, tot)"
  shows "tot = sum_list (map amount sel)"
  using select_loop_prefix[OF assms] by auto

text \<open>When the whole list covers the target, so does the total the loop ends with.\<close>

lemma select_loop_enough:
  "select_loop xs t sel tot = (sel', tot') \<Longrightarrow> t \<le> tot + sum_list (map amount xs) \<Longrightarrow> t \<le> tot'"
  by (induction xs arbitrary: sel tot) (auto simp: Let_def split: if_splits)

text \<open>
  The loop goes on only while the total is below the target: started below the target on
  a list that is not empty, it ends with a total that is below the target without the
  last UTXO selected.
\<close>

lemma select_loop_last:
  "select_loop xs t sel tot = (sel', tot') \<Longrightarrow> xs \<noteq> [] \<Longrightarrow> tot < t \<Longrightarrow>
   sel' \<noteq> [] \<and> tot' - amount (last sel') < t"
proof (induction xs arbitrary: sel tot)
  case Nil
  then show ?case by simp
next
  case (Cons u us)
  show ?case
  proof (cases "tot + amount u \<ge> t \<or> us = []")
    case True
    with Cons.prems have "sel' = sel @ [u]" "tot' = tot + amount u"
      by (auto simp: Let_def split: if_splits)
    with Cons.prems show ?thesis by simp
  next
    case False
    with Cons.prems have "select_loop us t (sel @ [u]) (tot + amount u) = (sel', tot')"
      by (simp add: Let_def)
    from Cons.IH[OF this] False show ?thesis by simp
  qed
qed

lemma sum_butlast:
  "sel \<noteq> [] \<Longrightarrow> sum_list (map amount (butlast sel)) = sum_list (map amount sel) - amount (last sel)"
  by (induction sel) auto


text \<open>
  C1, as amended. For every list of UTXOs whose total amount is at least the target,
  \<open>select_utxos\<close> returns a prefix of the list sorted by amount in descending order, the
  sum of the prefix is at least the target, and neither the builder nor the list passed
  in changes. When the target is positive the selection is not empty, and without its
  last element its sum is strictly below the target.
\<close>

theorem select_utxos_sufficient:
  assumes "target \<le> sum_list (map amount us)"
  shows "\<exists>sel k. select_utxos self us target = (Inr sel, self, us)
           \<and> sel = take k (sorted_utxos us)
           \<and> mset (sorted_utxos us) = mset us
           \<and> sorted_wrt (\<lambda>a b. amount a \<ge> amount b) (sorted_utxos us)
           \<and> target \<le> sum_list (map amount sel)
           \<and> (0 < target \<longrightarrow> sel \<noteq> [] \<and> sum_list (map amount (butlast sel)) < target)"
proof -
  obtain sel tot where run: "select_loop (sorted_utxos us) target [] 0 = (sel, tot)"
    by (cases "select_loop (sorted_utxos us) target [] 0")
  have tot: "tot = sum_list (map amount sel)"
    using select_loop_sum[OF run] .
  have "target \<le> tot"
    using select_loop_enough[OF run] assms by (simp add: sum_sorted_utxos)
  then have res: "select_utxos self us target = (Inr sel, self, us)"
    by (simp add: select_utxos_def run)
  obtain k where k: "sel = take k (sorted_utxos us)"
    using select_loop_prefix[OF run] by auto
  have minimal: "sel \<noteq> [] \<and> sum_list (map amount (butlast sel)) < target" if pos: "0 < target"
  proof -
    have "sorted_utxos us \<noteq> []"
    proof
      assume "sorted_utxos us = []"
      then have "sum_list (map amount (sorted_utxos us)) = 0" by simp
      with assms pos show False by (simp add: sum_sorted_utxos)
    qed
    from select_loop_last[OF run this] pos
    have "sel \<noteq> []" and "tot - amount (last sel) < target" by simp_all
    then show ?thesis by (simp add: sum_butlast tot)
  qed
  have "mset (sorted_utxos us) = mset us" by (simp add: sorted_utxos_def)
  with res k \<open>target \<le> tot\<close> tot minimal sorted_utxos_descending[of us]
  show ?thesis by blast
qed

text \<open>The test suite's two UTXOs and the target 250000: both are selected, the larger first.\<close>

theorem select_utxos_sufficient_witness:
  "(250000::int) \<le> sum_list (map amount [utxo1, utxo2])
   \<and> (0::int) < 250000
   \<and> select_utxos init_builder [utxo1, utxo2] 250000
        = (Inr [utxo2, utxo1], init_builder, [utxo1, utxo2])
   \<and> 250000 \<le> sum_list (map amount [utxo2, utxo1])
   \<and> sum_list (map amount (butlast [utxo2, utxo1])) < 250000"
proof -
  have h: "(250000::int) \<le> sum_list (map amount [utxo1, utxo2])"
    by (simp add: utxo1_def utxo2_def)
  have run: "select_utxos init_builder [utxo1, utxo2] 250000
      = (Inr [utxo2, utxo1], init_builder, [utxo1, utxo2])"
    by (simp add: select_utxos_def sorted_utxos_def utxo1_def utxo2_def Let_def)
  from select_utxos_sufficient[OF h, of init_builder] obtain sel where
    sel: "select_utxos init_builder [utxo1, utxo2] 250000 = (Inr sel, init_builder, [utxo1, utxo2])"
      "250000 \<le> sum_list (map amount sel)"
      "(0::int) < 250000 \<longrightarrow> sel \<noteq> [] \<and> sum_list (map amount (butlast sel)) < 250000"
    by blast
  from sel(1) run have "sel = [utxo2, utxo1]" by simp
  with sel(2,3) have "250000 \<le> sum_list (map amount [utxo2, utxo1])"
    and "sum_list (map amount (butlast [utxo2, utxo1])) < 250000"
    by simp_all
  with h run show ?thesis by simp
qed

text \<open>
  C1 as stated fails at the target 0: the loop appends the first UTXO before it compares,
  so one UTXO is selected, and without it the sum is 0, which is not below the target.
\<close>

theorem select_utxos_zero_target_counterexample:
  "(0::int) \<le> sum_list (map amount [utxo1, utxo2])
   \<and> select_utxos init_builder [utxo1, utxo2] 0 = (Inr [utxo2], init_builder, [utxo1, utxo2])
   \<and> \<not> sum_list (map amount (butlast [utxo2])) < 0"
  by (simp add: select_utxos_def sorted_utxos_def utxo1_def utxo2_def Let_def)




section \<open>Fee estimation and change\<close>

text \<open>
  C5. For every builder state, \<open>calculate_fee\<close> returns exactly
  \<open>(10 + 68 * input_count + 34 * output_count) * fee_rate\<close>, an integer; the function is
  total, so it has no failure mode; with one input, one output and the fee rate 1 the
  fee is 112.
\<close>

theorem calculate_fee_formula:
  "calculate_fee self
     = (10 + 68 * int (length (inputs self)) + 34 * int (length (outputs self))) * fee_rate self
   \<and> calculate_fee (add_output (add_input init_builder u) a s) = 112"
  by (simp add: calculate_fee_def add_output_def add_input_def init_builder_def Let_def
      algebra_simps)

text \<open>
  C6. With \<open>change = input_amount - output_amount - fee\<close>, which may be negative,
  \<open>add_change_output\<close> appends exactly one output of that amount to the change address
  when \<open>change \<ge> 546\<close> and a change address is configured (set, and not the empty
  string); otherwise the builder is returned as it is. The function is total: it never
  raises.
\<close>

theorem add_change_output_policy:
  "(546 \<le> input_amount - output_amount - fee
      \<and> (\<exists>a. change_address self = Some a \<and> a \<noteq> []) \<longrightarrow>
        add_change_output self input_amount output_amount fee =
          self\<lparr>outputs := outputs self @
            [\<lparr>out_amount = input_amount - output_amount - fee,
              out_script_pubkey = the (change_address self)\<rparr>]\<rparr>)
   \<and> (\<not> (546 \<le> input_amount - output_amount - fee
          \<and> (\<exists>a. change_address self = Some a \<and> a \<noteq> [])) \<longrightarrow>
        add_change_output self input_amount output_amount fee = self)"
  by (auto simp: add_change_output_def add_output_def TransactionOutput_def truthy_def Let_def
      split: option.splits)

text \<open>
  \<open>(100000, 60000, 1000)\<close> with an address gives one output of 39000; \<open>(1000, 500, 400)\<close>
  gives none; without an address nothing is appended.
\<close>

theorem add_change_output_policy_witness:
  "(546::int) \<le> 100000 - 60000 - 1000
   \<and> (\<exists>a. change_address builder_change = Some a \<and> a \<noteq> [])
   \<and> add_change_output builder_change 100000 60000 1000 =
        builder_change\<lparr>outputs :=
          [\<lparr>out_amount = 39000, out_script_pubkey = py_str ''76a914cc''\<rparr>]\<rparr>
   \<and> \<not> ((546::int) \<le> 1000 - 500 - 400)
   \<and> add_change_output builder_change 1000 500 400 = builder_change
   \<and> change_address init_builder = None
   \<and> add_change_output init_builder 100000 60000 1000 = init_builder"
proof -
  have big: "(546::int) \<le> 100000 - 60000 - 1000
      \<and> (\<exists>a. change_address builder_change = Some a \<and> a \<noteq> [])"
    by (simp add: builder_change_def py_str_def)
  have dust: "\<not> ((546::int) \<le> 1000 - 500 - 400
      \<and> (\<exists>a. change_address builder_change = Some a \<and> a \<noteq> []))"
    by simp
  have none: "\<not> ((546::int) \<le> 100000 - 60000 - 1000
      \<and> (\<exists>a. change_address init_builder = Some a \<and> a \<noteq> []))"
    by (simp add: init_builder_def)
  have "add_change_output builder_change 100000 60000 1000 =
        builder_change\<lparr>outputs :=
          [\<lparr>out_amount = 39000, out_script_pubkey = py_str ''76a914cc''\<rparr>]\<rparr>"
    using add_change_output_policy[of 100000 60000 1000 builder_change] big
    by (simp add: builder_change_def init_builder_def)
  moreover have "add_change_output builder_change 1000 500 400 = builder_change"
    using add_change_output_policy[of 1000 500 400 builder_change] dust by blast
  moreover have "add_change_output init_builder 100000 60000 1000 = init_builder"
    using add_change_output_policy[of 100000 60000 1000 init_builder] none by blast
  ultimately show ?thesis
    using big by (simp add: init_builder_def)
qed

section \<open>The signature hash\<close>

text \<open>
  \<open>struct.pack\<close> agrees with the specification's little-endian bytes, and in range the
  words hold the numbers themselves.
\<close>

lemma le32_one: "le32 1 = [1, 0, 0, 0]"
  by (simp add: le32_def drop_bit_eq_div)

lemma byte_of_drop_bit:
  "(word_of_int (drop_bit k v) :: byte) = ucast (drop_bit k (word_of_int v :: 32 word))"
  if "k \<le> 24"
  using that by (intro bit_word_eqI) (auto simp: bit_simps)

lemma pack_u32_le_spec:
  assumes "0 \<le> v" "v < 4294967296"
  shows "pack_u32_le v = Inr (le32 (word_of_int v))"
proof -
  have d: "v div 256 = drop_bit 8 v" "v div 65536 = drop_bit 16 v" "v div 16777216 = drop_bit 24 v"
    by (simp_all add: drop_bit_eq_div)
  have "(word_of_int v :: byte) = ucast (word_of_int v :: 32 word)"
    using byte_of_drop_bit[of 0 v] by simp
  then show ?thesis
    using assms by (simp add: pack_u32_le_def le32_def d byte_of_drop_bit)
qed

lemma uint_vout_word:
  "0 \<le> v \<Longrightarrow> v < 4294967296 \<Longrightarrow> uint (word_of_int v :: 32 word) = v"
  by (simp add: uint_word_of_int take_bit_eq_mod)

lemma unat_count_byte: "n \<le> 255 \<Longrightarrow> unat (of_nat n :: byte) = n"
  by (simp add: unat_of_nat take_bit_eq_mod)

text \<open>List indexing: in range from either end, or an error.\<close>

lemma resolve_index_nonneg:
  "0 \<le> i \<Longrightarrow> i < int n \<Longrightarrow> resolve_index n i = Inr (nat i)"
  by (simp add: resolve_index_def)

lemma resolve_index_neg:
  "- int n \<le> i \<Longrightarrow> i < 0 \<Longrightarrow> resolve_index n i = Inr (nat (int n + i))"
  by (simp add: resolve_index_def)

lemma resolve_index_out:
  "i < - int n \<or> int n \<le> i \<Longrightarrow> resolve_index n i = Inl IndexError"
  by (auto simp: resolve_index_def)

lemma resolve_index_bound: "resolve_index n i = Inr j \<Longrightarrow> j < n"
  by (auto simp: resolve_index_def Let_def split: if_splits)

text \<open>
  The digest is computed when both counts fit in a byte, the index is in range, the
  transaction id has no surrogate and the output index fits in 32 bits; otherwise the
  first operand that fails decides the error.
\<close>

lemma create_signature_hash_ok:
  assumes "length (inputs self) \<le> 255" "length (outputs self) \<le> 255"
    and "resolve_index (length (inputs self)) i = Inr j"
    and "\<not> list_ex surrogate (in_txid (inputs self ! j))"
    and "0 \<le> in_vout (inputs self ! j)" "in_vout (inputs self ! j) < 4294967296"
  shows "create_signature_hash sha self i t =
           Inr (sha (sha (spec_serialization (of_nat (length (inputs self)))
             (utf8 (in_txid (inputs self ! j))) (word_of_int (in_vout (inputs self ! j)))
             (of_nat (length (outputs self))))))"
proof -
  have "pack_u32_le 1 = Inr (le32 1)"
    using pack_u32_le_spec[of 1] by simp
  moreover have "pack_u32_le (in_vout (inputs self ! j))
      = Inr (le32 (word_of_int (in_vout (inputs self ! j))))"
    using assms(5,6) by (rule pack_u32_le_spec)
  moreover have "to_bytes1 (length (inputs self)) = Inr [of_nat (length (inputs self))]"
    "to_bytes1 (length (outputs self)) = Inr [of_nat (length (outputs self))]"
    using assms(1,2) by (simp_all add: to_bytes1_def)
  moreover have "encode (in_txid (inputs self ! j)) = Inr (utf8 (in_txid (inputs self ! j)))"
    using assms(4) by (rule encode_ok)
  ultimately show ?thesis
    using assms(3) by (simp add: create_signature_hash_def spec_serialization_def)
qed

lemma create_signature_hash_overflow_inputs:
  "255 < length (inputs self) \<Longrightarrow> create_signature_hash sha self i t = Inl OverflowError"
  by (simp add: create_signature_hash_def to_bytes1_def pack_u32_le_def)

lemma create_signature_hash_overflow_outputs:
  "255 < length (outputs self) \<Longrightarrow> \<exists>e. create_signature_hash sha self i t = Inl e"
  by (simp add: create_signature_hash_def to_bytes1_def pack_u32_le_def split: sum.splits)

lemma create_signature_hash_index:
  assumes "length (inputs self) \<le> 255"
    and "i < - int (length (inputs self)) \<or> int (length (inputs self)) \<le> i"
  shows "create_signature_hash sha self i t = Inl IndexError"
  using assms(1) resolve_index_out[OF assms(2)]
  by (simp add: create_signature_hash_def to_bytes1_def pack_u32_le_def)

lemma create_signature_hash_surrogate:
  assumes "length (inputs self) \<le> 255"
    and "resolve_index (length (inputs self)) i = Inr j"
    and "list_ex surrogate (in_txid (inputs self ! j))"
  shows "create_signature_hash sha self i t = Inl UnicodeEncodeError"
  using assms(1,2) encode_error[OF assms(3)]
  by (simp add: create_signature_hash_def to_bytes1_def pack_u32_le_def)

lemma create_signature_hash_frame:
  "inputs self' = inputs self \<Longrightarrow> outputs self' = outputs self \<Longrightarrow>
   create_signature_hash sha self' i t' = create_signature_hash sha self i t"
  by (simp add: create_signature_hash_def cong: sum.case_cong)

text \<open>The digest does not read the unlocking script.\<close>

lemma create_signature_hash_script_sig:
  assumes "resolve_index (length (inputs self)) i = Inr j"
  shows "create_signature_hash sha
           (self\<lparr>inputs := (inputs self)[j := ((inputs self ! j)\<lparr>script_sig := x\<rparr>)]\<rparr>) i t
         = create_signature_hash sha self i t"
  using assms resolve_index_bound[OF assms]
  by (simp add: create_signature_hash_def cong: sum.case_cong)

text \<open>
  C3, as amended. For every builder with at most 255 inputs and at most 255 outputs,
  every index \<open>0 \<le> i < n\<close>, a transaction id of input \<open>i\<close> without a surrogate (one that
  UTF-8 can encode) and an output index of input \<open>i\<close> in \<open>[0, 2^32)\<close>, the signature
  digest is the hash applied twice to the concatenation of the 4-byte little-endian
  constant 1, the 1-byte input count, the UTF-8 bytes of the input's transaction id, the
  4-byte little-endian output index and the 1-byte output count, none of them wrapped
  around. With a hash of 32-byte results the digest has 32 bytes. Builders with the same
  inputs and outputs have the same digest, whatever the signature hash type.
\<close>

theorem create_signature_hash_digest:
  assumes "length (inputs self) \<le> 255" and "length (outputs self) \<le> 255"
    and "0 \<le> i" and "i < int (length (inputs self))"
    and "\<not> list_ex surrogate (in_txid (inputs self ! nat i))"
    and "0 \<le> in_vout (inputs self ! nat i)" and "in_vout (inputs self ! nat i) < 4294967296"
  shows "create_signature_hash sha self i t =
           Inr (sha (sha (spec_serialization (of_nat (length (inputs self)))
             (utf8 (in_txid (inputs self ! nat i)))
             (word_of_int (in_vout (inputs self ! nat i)))
             (of_nat (length (outputs self))))))
         \<and> le32 1 = [1, 0, 0, 0]
         \<and> unat (of_nat (length (inputs self)) :: byte) = length (inputs self)
         \<and> uint (word_of_int (in_vout (inputs self ! nat i)) :: 32 word)
             = in_vout (inputs self ! nat i)
         \<and> unat (of_nat (length (outputs self)) :: byte) = length (outputs self)
         \<and> ((\<forall>m. length (sha m) = 32) \<longrightarrow>
              (\<exists>d. create_signature_hash sha self i t = Inr d \<and> length d = 32))
         \<and> (\<forall>self' t'. inputs self' = inputs self \<and> outputs self' = outputs self \<longrightarrow>
              create_signature_hash sha self' i t' = create_signature_hash sha self i t)"
proof -
  have idx: "resolve_index (length (inputs self)) i = Inr (nat i)"
    using assms(3,4) by (rule resolve_index_nonneg)
  note dig = create_signature_hash_ok[where sha = sha and t = t, OF assms(1,2) idx assms(5-7)]
  have "(\<forall>m. length (sha m) = 32) \<longrightarrow>
          (\<exists>d. create_signature_hash sha self i t = Inr d \<and> length d = 32)"
    by (simp add: dig)
  moreover have "\<forall>self' t'. inputs self' = inputs self \<and> outputs self' = outputs self \<longrightarrow>
      create_signature_hash sha self' i t' = create_signature_hash sha self i t"
    using create_signature_hash_frame by blast
  ultimately show ?thesis
    using dig assms(1,2,6,7) unat_count_byte uint_vout_word le32_one by blast
qed

text \<open>The builder of the signing test, input 0.\<close>

theorem create_signature_hash_digest_witness:
  "length (inputs builder1) \<le> 255 \<and> length (outputs builder1) \<le> 255
   \<and> (0::int) \<le> 0 \<and> 0 < int (length (inputs builder1))
   \<and> \<not> list_ex surrogate (in_txid (inputs builder1 ! nat 0))
   \<and> 0 \<le> in_vout (inputs builder1 ! nat 0) \<and> in_vout (inputs builder1 ! nat 0) < 4294967296
   \<and> create_signature_hash test_sha256 builder1 0 1 =
        Inr (test_sha256 (test_sha256
          (spec_serialization 1 (utf8 (py_str ''abc123def456'')) 0 1)))
   \<and> utf8 (py_str ''abc123def456'') = [97, 98, 99, 49, 50, 51, 100, 101, 102, 52, 53, 54]
   \<and> (\<forall>m. length (test_sha256 m) = 32)
   \<and> (\<exists>d. create_signature_hash test_sha256 builder1 0 1 = Inr d \<and> length d = 32)"
proof -
  have h: "length (inputs builder1) \<le> 255" "length (outputs builder1) \<le> 255"
    "(0::int) \<le> 0" "0 < int (length (inputs builder1))"
    "\<not> list_ex surrogate (in_txid (inputs builder1 ! nat 0))"
    "0 \<le> in_vout (inputs builder1 ! nat 0)" "in_vout (inputs builder1 ! nat 0) < 4294967296"
    by (simp_all add: builder1_simps py_str_no_surrogate)
  have sha: "\<forall>m. length (test_sha256 m) = 32"
    by (simp add: test_sha256_def)
  have bytes: "utf8 (py_str ''abc123def456'')
      = [97, 98, 99, 49, 50, 51, 100, 101, 102, 52, 53, 54]"
    by (simp add: utf8_def utf8_char_def py_str_def)
  have dig: "create_signature_hash test_sha256 builder1 0 1 =
        Inr (test_sha256 (test_sha256
          (spec_serialization 1 (utf8 (py_str ''abc123def456'')) 0 1)))"
    using create_signature_hash_digest[where sha = test_sha256 and t = 1, OF h]
    by (simp add: builder1_simps)
  then have "\<exists>d. create_signature_hash test_sha256 builder1 0 1 = Inr d \<and> length d = 32"
    using sha by simp
  with h sha bytes dig show ?thesis
    by (intro conjI) assumption+
qed

text \<open>
  C3 as stated fails for a builder with 256 inputs: the input count does not fit in one
  byte, and \<open>create_signature_hash\<close> raises instead of returning a digest. It fails as
  well for one input whose transaction id is a lone surrogate: \<open>encode\<close> raises.
\<close>

theorem create_signature_hash_256_inputs_counterexample:
  "length (inputs builder256) = 256
   \<and> (0::int) \<le> 0 \<and> 0 < int (length (inputs builder256))
   \<and> create_signature_hash test_sha256 builder256 0 1 = Inl OverflowError
   \<and> length (inputs builder_surrogate) = 1 \<and> length (outputs builder_surrogate) = 0
   \<and> in_vout (inputs builder_surrogate ! 0) = 0
   \<and> create_signature_hash test_sha256 builder_surrogate 0 1 = Inl UnicodeEncodeError"
  by (simp add: builder256_def builder_surrogate_def utxo_surrogate_def add_input_def
      init_builder_def TransactionInput_def create_signature_hash_def to_bytes1_def
      pack_u32_le_def resolve_index_def encode_def surrogate_def)

section \<open>Signing\<close>

text \<open>An error of the digest is the error of \<open>sign_input\<close>, and the builder is as before.\<close>

lemma sign_input_digest_error:
  "create_signature_hash sha self i t = Inl e \<Longrightarrow> sign_input sha lib self i k t = (Inl e, self)"
  by (simp add: sign_input_def)

text \<open>When every step succeeds, the script of the input at the resolved index is set.\<close>

lemma sign_input_ok:
  assumes dig: "create_signature_hash sha self i t = Inr d"
    and idx: "resolve_index (length (inputs self)) i = Inr j"
    and key: "from_string lib k = Inr sk"
    and sig: "sign_digest lib sk d = Inr der"
    and t: "0 \<le> t" "t < 256"
    and lens: "length der < 255" "length (to_string lib sk) \<le> 255"
  shows "sign_input sha lib self i k t =
           (Inr (), self\<lparr>inputs := (inputs self)[j := ((inputs self ! j)
              \<lparr>script_sig := Some ([of_nat (length (der @ [of_int t]))] @ (der @ [of_int t])
                    @ [of_nat (length (to_string lib sk))] @ to_string lib sk)\<rparr>)]\<rparr>)"
  using assms by (simp add: sign_input_def bytes1_def to_bytes1_def Let_def)

lemma sign_input_resolved:
  assumes "length (inputs self) \<le> 255" and "length (outputs self) \<le> 255"
    and idx: "resolve_index (length (inputs self)) i = Inr j"
    and "\<not> list_ex surrogate (in_txid (inputs self ! j))"
    and "0 \<le> in_vout (inputs self ! j)" and "in_vout (inputs self ! j) < 4294967296"
    and key: "from_string lib k = Inr sk"
    and sig: "sign_digest lib sk (sha (sha (spec_serialization
                (of_nat (length (inputs self))) (utf8 (in_txid (inputs self ! j)))
                (word_of_int (in_vout (inputs self ! j))) (of_nat (length (outputs self))))))
              = Inr der"
    and t: "0 \<le> t" "t < 256"
    and lens: "length der < 255" "length (to_string lib sk) \<le> 255"
  shows "sign_input sha lib self i k t =
           (Inr (), self\<lparr>inputs := (inputs self)[j := ((inputs self ! j)
              \<lparr>script_sig := Some (spec_unlocking_script (der @ [of_int t]) (to_string lib sk))\<rparr>)]\<rparr>)"
proof -
  note dig = create_signature_hash_ok[where sha = sha and t = t, OF assms(1,2) idx assms(4-6)]
  show ?thesis
    using sign_input_ok[OF dig idx key sig t lens]
    by (simp add: spec_unlocking_script_def)
qed

text \<open>
  Signing an input again gives what signing it once gives: the script set before is
  not read.
\<close>

lemma sign_input_success_shape:
  "sign_input sha lib self i k t = (Inr (), self') \<Longrightarrow>
   \<exists>j s. resolve_index (length (inputs self)) i = Inr j
       \<and> self' = self\<lparr>inputs := (inputs self)[j := ((inputs self ! j)\<lparr>script_sig := Some s\<rparr>)]\<rparr>"
  by (auto simp: sign_input_def Let_def split: sum.splits)

lemma sign_input_again:
  assumes "sign_input sha lib self i k t = (Inr (), self')"
  shows "fst (sign_input sha' lib' self' i k' t') = fst (sign_input sha' lib' self i k' t')"
    and "fst (sign_input sha' lib' self i k' t') = Inr () \<Longrightarrow>
         snd (sign_input sha' lib' self' i k' t') = snd (sign_input sha' lib' self i k' t')"
proof -
  from sign_input_success_shape[OF assms] obtain j s where
    j: "resolve_index (length (inputs self)) i = Inr j" and
    s: "self' = self\<lparr>inputs := (inputs self)[j := ((inputs self ! j)\<lparr>script_sig := Some s\<rparr>)]\<rparr>"
    by blast
  note dig = create_signature_hash_script_sig[OF j]
  have jn: "j < length (inputs self)"
    using j by (rule resolve_index_bound)
  show "fst (sign_input sha' lib' self' i k' t') = fst (sign_input sha' lib' self i k' t')"
    unfolding s by (simp add: sign_input_def dig j Let_def split: sum.splits)
  show "snd (sign_input sha' lib' self' i k' t') = snd (sign_input sha' lib' self i k' t')"
    if "fst (sign_input sha' lib' self i k' t') = Inr ()"
    using that jn unfolding s
    by (auto simp: sign_input_def dig j Let_def split: sum.splits)
qed

text \<open>
  C4, as amended. For every builder with \<open>1 \<le> n \<le> 255\<close> inputs and at most 255
  outputs, an index \<open>0 \<le> i < n\<close> whose input has a transaction id without a surrogate
  (one that UTF-8 can encode) and an output index in \<open>[0, 2^32)\<close>, a private key the
  package accepts, a signature hash type in \<open>[0, 256)\<close>, and a DER
  signature of at most 254 bytes and a public key of at most 255 bytes from the package:
  \<open>sign_input\<close> returns without error, and the builder differs from the one before only
  in the unlocking script of input \<open>i\<close>, which is
  \<open>[len(signature)][signature][len(pubkey)][pubkey]\<close> with the signature the DER bytes
  followed by the one byte of the signature hash type, and each length a single byte
  that holds the length. Signing the same input again leaves the builder that signing
  the input once with the second key leaves: the script is overwritten.
\<close>

theorem sign_input_sets_script:
  assumes "length (inputs self) \<le> 255" and "length (outputs self) \<le> 255"
    and "0 \<le> i" and "i < int (length (inputs self))"
    and "\<not> list_ex surrogate (in_txid (inputs self ! nat i))"
    and "0 \<le> in_vout (inputs self ! nat i)" and "in_vout (inputs self ! nat i) < 4294967296"
    and "from_string lib k = Inr sk"
    and "sign_digest lib sk (sha (sha (spec_serialization
                (of_nat (length (inputs self))) (utf8 (in_txid (inputs self ! nat i)))
                (word_of_int (in_vout (inputs self ! nat i))) (of_nat (length (outputs self))))))
              = Inr der"
    and "0 \<le> t" and "t < 256"
    and "length der < 255" and "length (to_string lib sk) \<le> 255"
  shows "\<exists>self'. sign_input sha lib self i k t = (Inr (), self')
           \<and> self' = self\<lparr>inputs := (inputs self)[nat i := ((inputs self ! nat i)
                \<lparr>script_sig := Some (spec_unlocking_script (der @ [of_int t]) (to_string lib sk))\<rparr>)]\<rparr>
           \<and> unat (of_nat (length (der @ [of_int t])) :: byte) = length der + 1
           \<and> unat (of_nat (length (to_string lib sk)) :: byte) = length (to_string lib sk)
           \<and> fst (sign_input sha' lib' self' i k' t') = fst (sign_input sha' lib' self i k' t')
           \<and> (fst (sign_input sha' lib' self i k' t') = Inr () \<longrightarrow>
                snd (sign_input sha' lib' self' i k' t') = snd (sign_input sha' lib' self i k' t'))"
proof -
  have idx: "resolve_index (length (inputs self)) i = Inr (nat i)"
    using assms(3,4) by (rule resolve_index_nonneg)
  note ok = sign_input_resolved[where sha = sha, OF assms(1,2) idx assms(5-13)]
  have "unat (of_nat (length (der @ [of_int t])) :: byte) = length der + 1"
    using assms(12) unat_count_byte[of "length der + 1"] by simp
  moreover have "unat (of_nat (length (to_string lib sk)) :: byte) = length (to_string lib sk)"
    using assms(13) by (rule unat_count_byte)
  ultimately show ?thesis
    using ok sign_input_again[OF ok, where sha' = sha' and lib' = lib' and k' = k' and t' = t'] by simp
qed

text \<open>The builder of the signing test, input 0, signature hash type 1.\<close>

theorem sign_input_sets_script_witness:
  "length (inputs builder1) \<le> 255 \<and> length (outputs builder1) \<le> 255
   \<and> (0::int) \<le> 0 \<and> 0 < int (length (inputs builder1))
   \<and> \<not> list_ex surrogate (in_txid (inputs builder1 ! nat 0))
   \<and> 0 \<le> in_vout (inputs builder1 ! nat 0) \<and> in_vout (inputs builder1 ! nat 0) < 4294967296
   \<and> from_string test_ecdsa test_key = Inr test_key
   \<and> (0::int) \<le> 1 \<and> (1::int) < 256
   \<and> length [48, 6, 2, 1, 1, 2, 1, 1 :: byte] < 255
   \<and> length (to_string test_ecdsa test_key) \<le> 255
   \<and> sign_input test_sha256 test_ecdsa builder1 0 test_key 1 =
        (Inr (), builder1\<lparr>inputs := [(inputs builder1 ! 0)
           \<lparr>script_sig := Some ([9, 48, 6, 2, 1, 1, 2, 1, 1, 1, 64] @ replicate 64 0)\<rparr>]\<rparr>)"
proof -
  have h: "length (inputs builder1) \<le> 255" "length (outputs builder1) \<le> 255"
    "(0::int) \<le> 0" "0 < int (length (inputs builder1))"
    "\<not> list_ex surrogate (in_txid (inputs builder1 ! nat 0))"
    "0 \<le> in_vout (inputs builder1 ! nat 0)" "in_vout (inputs builder1 ! nat 0) < 4294967296"
    by (simp_all add: builder1_simps py_str_no_surrogate)
  have key: "from_string test_ecdsa test_key = Inr test_key"
    by (simp add: test_ecdsa_def test_key_def)
  have sig: "sign_digest test_ecdsa test_key (test_sha256 (test_sha256 (spec_serialization
                (of_nat (length (inputs builder1))) (utf8 (in_txid (inputs builder1 ! nat 0)))
                (word_of_int (in_vout (inputs builder1 ! nat 0))) (of_nat (length (outputs builder1))))))
              = Inr [48, 6, 2, 1, 1, 2, 1, 1]"
    by (simp add: test_ecdsa_def test_sha256_def)
  have t: "(0::int) \<le> 1" "(1::int) < 256" by simp_all
  have lens: "length [48, 6, 2, 1, 1, 2, 1, 1 :: byte] < 255"
    "length (to_string test_ecdsa test_key) \<le> 255"
    by (simp_all add: test_ecdsa_def)
  from sign_input_sets_script[where sha = test_sha256 and sha' = test_sha256 and lib' = test_ecdsa
      and k' = test_key and t' = 1, OF h key sig t lens]
  have "sign_input test_sha256 test_ecdsa builder1 0 test_key 1 =
        (Inr (), builder1\<lparr>inputs := (inputs builder1)[nat 0 := ((inputs builder1 ! nat 0)
           \<lparr>script_sig := Some (spec_unlocking_script ([48, 6, 2, 1, 1, 2, 1, 1] @ [of_int 1])
              (to_string test_ecdsa test_key))\<rparr>)]\<rparr>)"
    by blast
  then have "sign_input test_sha256 test_ecdsa builder1 0 test_key 1 =
        (Inr (), builder1\<lparr>inputs := [(inputs builder1 ! 0)
           \<lparr>script_sig := Some ([9, 48, 6, 2, 1, 1, 2, 1, 1, 1, 64] @ replicate 64 0)\<rparr>]\<rparr>)"
    by (simp add: builder1_update spec_unlocking_script_def test_ecdsa_def)
  with h key t lens show ?thesis by simp
qed

text \<open>
  C4 as stated fails for a builder with 256 inputs: index 0 is valid and the key is
  accepted, but the digest cannot be computed, \<open>sign_input\<close> raises and no script is set.
  It fails as well for one input whose transaction id is a lone surrogate.
\<close>

theorem sign_input_256_inputs_counterexample:
  "1 \<le> length (inputs builder256)
   \<and> (0::int) \<le> 0 \<and> 0 < int (length (inputs builder256))
   \<and> from_string test_ecdsa test_key = Inr test_key
   \<and> sign_input test_sha256 test_ecdsa builder256 0 test_key 1 = (Inl OverflowError, builder256)
   \<and> script_sig (inputs builder256 ! 0) = None
   \<and> length (inputs builder_surrogate) = 1
   \<and> sign_input test_sha256 test_ecdsa builder_surrogate 0 test_key 1
        = (Inl UnicodeEncodeError, builder_surrogate)"
  by (simp add: builder256_def builder_surrogate_def utxo_surrogate_def add_input_def
      init_builder_def sign_input_def create_signature_hash_def to_bytes1_def pack_u32_le_def
      resolve_index_def encode_def surrogate_def test_ecdsa_def test_key_def
      TransactionInput_def)

text \<open>
  C7, as amended. For every builder with \<open>n \<le> 255\<close> inputs and every index below
  \<open>-n\<close> or at least \<open>n\<close>, \<open>sign_input\<close> raises \<open>IndexError\<close> and the builder is as
  before: no unlocking script and no other part of it is modified.
\<close>

theorem sign_input_index_error:
  assumes "length (inputs self) \<le> 255"
    and "i < - int (length (inputs self)) \<or> int (length (inputs self)) \<le> i"
  shows "sign_input sha lib self i k t = (Inl IndexError, self)"
  using create_signature_hash_index[OF assms] by (rule sign_input_digest_error)

text \<open>The builder of the signing test has one input: index 1 is out of range.\<close>

theorem sign_input_index_error_witness:
  "length (inputs builder1) \<le> 255
   \<and> ((1::int) < - int (length (inputs builder1)) \<or> int (length (inputs builder1)) \<le> 1)
   \<and> sign_input test_sha256 test_ecdsa builder1 1 test_key 1 = (Inl IndexError, builder1)"
proof -
  have h1: "length (inputs builder1) \<le> 255"
    by (simp add: builder1_simps)
  have h2: "(1::int) < - int (length (inputs builder1)) \<or> int (length (inputs builder1)) \<le> 1"
    by (simp add: builder1_simps)
  show ?thesis
    using h1 h2 sign_input_index_error[where sha = test_sha256, OF h1 h2] by simp
qed

text \<open>
  C7 as stated fails at the index \<open>-1\<close>, which is outside \<open>[0, 1)\<close>: \<open>sign_input\<close> does
  not raise, and the script of input 0 is set.
\<close>

theorem sign_input_negative_index_counterexample:
  "(-1::int) < 0
   \<and> length (inputs builder1) = 1
   \<and> from_string test_ecdsa test_key = Inr test_key
   \<and> fst (sign_input test_sha256 test_ecdsa builder1 (-1) test_key 1) = Inr ()
   \<and> script_sig (inputs builder1 ! 0) = None
   \<and> script_sig (inputs (snd (sign_input test_sha256 test_ecdsa builder1 (-1) test_key 1)) ! 0)
        = Some ([9, 48, 6, 2, 1, 1, 2, 1, 1, 1, 64] @ replicate 64 0)"
  by (simp add: builder1_def add_output_def add_input_def init_builder_def
      sign_input_def create_signature_hash_def to_bytes1_def pack_u32_le_def bytes1_def
      resolve_index_def encode_def py_str_no_surrogate test_ecdsa_def test_key_def
      test_sha256_def TransactionInput_def utxo1_def Let_def)

text \<open>
  C9, as amended. For every builder with \<open>1 \<le> n \<le> 255\<close> inputs and at most 255
  outputs and every index \<open>-n \<le> i < 0\<close>, under the conditions of C4 for input \<open>n + i\<close>
  (transaction id without a surrogate, output index in \<open>[0, 2^32)\<close>, accepted key,
  signature hash type in \<open>[0, 256)\<close>, lengths that fit in a byte), \<open>sign_input\<close> does not
  raise: it sets the unlocking script of input \<open>n + i\<close>, exactly as the call with the
  index \<open>n + i\<close> does.
\<close>

theorem sign_input_negative_index:
  assumes "length (inputs self) \<le> 255" and "length (outputs self) \<le> 255"
    and "- int (length (inputs self)) \<le> i" and "i < 0"
    and "\<not> list_ex surrogate (in_txid (inputs self ! nat (int (length (inputs self)) + i)))"
    and "0 \<le> in_vout (inputs self ! nat (int (length (inputs self)) + i))"
    and "in_vout (inputs self ! nat (int (length (inputs self)) + i)) < 4294967296"
    and "from_string lib k = Inr sk"
    and "sign_digest lib sk (sha (sha (spec_serialization
                (of_nat (length (inputs self)))
                (utf8 (in_txid (inputs self ! nat (int (length (inputs self)) + i))))
                (word_of_int (in_vout (inputs self ! nat (int (length (inputs self)) + i))))
                (of_nat (length (outputs self))))))
              = Inr der"
    and "0 \<le> t" and "t < 256"
    and "length der < 255" and "length (to_string lib sk) \<le> 255"
  shows "sign_input sha lib self i k t =
           (Inr (), self\<lparr>inputs := (inputs self)[nat (int (length (inputs self)) + i) :=
              ((inputs self ! nat (int (length (inputs self)) + i))
                \<lparr>script_sig := Some (spec_unlocking_script (der @ [of_int t]) (to_string lib sk))\<rparr>)]\<rparr>)
         \<and> sign_input sha lib self i k t
             = sign_input sha lib self (int (length (inputs self)) + i) k t"
proof -
  have idx: "resolve_index (length (inputs self)) i = Inr (nat (int (length (inputs self)) + i))"
    using assms(3,4) by (rule resolve_index_neg)
  have idx': "resolve_index (length (inputs self)) (int (length (inputs self)) + i)
                = Inr (nat (int (length (inputs self)) + i))"
    using assms(3,4) by (intro resolve_index_nonneg) simp_all
  note neg = sign_input_resolved[where sha = sha, OF assms(1,2) idx assms(5-13)]
  note pos = sign_input_resolved[where sha = sha, OF assms(1,2) idx' assms(5-13)]
  show ?thesis using neg pos by simp
qed

text \<open>
  The builder with two inputs: the index \<open>-1\<close> signs the second input, as the index 1
  does, and leaves the first as it is.
\<close>

theorem sign_input_negative_index_witness:
  "length (inputs builder2) \<le> 255 \<and> length (outputs builder2) \<le> 255
   \<and> - int (length (inputs builder2)) \<le> -1 \<and> (-1::int) < 0
   \<and> \<not> list_ex surrogate (in_txid (inputs builder2 ! 1))
   \<and> 0 \<le> in_vout (inputs builder2 ! 1) \<and> in_vout (inputs builder2 ! 1) < 4294967296
   \<and> from_string test_ecdsa test_key = Inr test_key
   \<and> (0::int) \<le> 1 \<and> (1::int) < 256
   \<and> length [48, 6, 2, 1, 1, 2, 1, 1 :: byte] < 255
   \<and> length (to_string test_ecdsa test_key) \<le> 255
   \<and> sign_input test_sha256 test_ecdsa builder2 (-1) test_key 1 =
        (Inr (), builder2\<lparr>inputs := [inputs builder2 ! 0, (inputs builder2 ! 1)
           \<lparr>script_sig := Some ([9, 48, 6, 2, 1, 1, 2, 1, 1, 1, 64] @ replicate 64 0)\<rparr>]\<rparr>)
   \<and> sign_input test_sha256 test_ecdsa builder2 (-1) test_key 1
        = sign_input test_sha256 test_ecdsa builder2 1 test_key 1"
proof -
  have last_index: "int (length (inputs builder2)) + - 1 = 1"
    by (simp add: builder2_simps)
  have h: "length (inputs builder2) \<le> 255" "length (outputs builder2) \<le> 255"
    "- int (length (inputs builder2)) \<le> -1" "(-1::int) < 0"
    "\<not> list_ex surrogate (in_txid (inputs builder2 ! 1))"
    "0 \<le> in_vout (inputs builder2 ! 1)" "in_vout (inputs builder2 ! 1) < 4294967296"
    by (simp_all add: builder2_simps py_str_no_surrogate)
  have key: "from_string test_ecdsa test_key = Inr test_key"
    by (simp add: test_ecdsa_def test_key_def)
  have sig: "sign_digest test_ecdsa test_key (test_sha256 (test_sha256 (spec_serialization
                (of_nat (length (inputs builder2)))
                (utf8 (in_txid (inputs builder2 ! 1)))
                (word_of_int (in_vout (inputs builder2 ! 1)))
                (of_nat (length (outputs builder2))))))
              = Inr [48, 6, 2, 1, 1, 2, 1, 1]"
    by (simp add: test_ecdsa_def test_sha256_def)
  have t: "(0::int) \<le> 1" "(1::int) < 256" by simp_all
  have lens: "length [48, 6, 2, 1, 1, 2, 1, 1 :: byte] < 255"
    "length (to_string test_ecdsa test_key) \<le> 255"
    by (simp_all add: test_ecdsa_def)
  have script: "spec_unlocking_script ([48, 6, 2, 1, 1, 2, 1, 1] @ [of_int 1])
                  (to_string test_ecdsa test_key)
                = [9, 48, 6, 2, 1, 1, 2, 1, 1, 1, 64] @ replicate 64 0"
    by (simp add: spec_unlocking_script_def test_ecdsa_def)
  note inst = sign_input_negative_index[where sha = test_sha256 and self = builder2
      and i = "- 1" and lib = test_ecdsa and k = test_key and sk = test_key and t = 1
      and der = "[48, 6, 2, 1, 1, 2, 1, 1]", unfolded last_index nat_1 One_nat_def[symmetric]
      builder2_update script, OF h key sig t lens]
  show ?thesis
    by (intro conjI h key t lens inst[THEN conjunct1] inst[THEN conjunct2])
qed

text \<open>
  C9 as stated fails for a builder with 256 inputs: the index \<open>-1\<close> is in range and the
  key is accepted, but \<open>sign_input\<close> raises on the input count. It fails as well for one
  input whose transaction id is a lone surrogate.
\<close>

theorem sign_input_negative_index_256_counterexample:
  "1 \<le> length (inputs builder256)
   \<and> - int (length (inputs builder256)) \<le> -1 \<and> (-1::int) < 0
   \<and> from_string test_ecdsa test_key = Inr test_key
   \<and> sign_input test_sha256 test_ecdsa builder256 (-1) test_key 1 = (Inl OverflowError, builder256)
   \<and> length (inputs builder_surrogate) = 1
   \<and> sign_input test_sha256 test_ecdsa builder_surrogate (-1) test_key 1
        = (Inl UnicodeEncodeError, builder_surrogate)"
  by (simp add: builder256_def builder_surrogate_def utxo_surrogate_def add_input_def
      init_builder_def sign_input_def create_signature_hash_def to_bytes1_def pack_u32_le_def
      resolve_index_def encode_def surrogate_def test_ecdsa_def test_key_def
      TransactionInput_def)

section \<open>The one-byte counts\<close>

text \<open>
  C10, as amended. For every builder with at most 255 inputs and at most 255 outputs
  both one-byte count encodings succeed, and \<open>create_signature_hash\<close> returns a digest
  for every index in range whose input has a transaction id without a surrogate and an
  output index in \<open>[0, 2^32)\<close>. With more than 255 inputs the count cannot be encoded:
  \<open>create_signature_hash\<close> and \<open>sign_input\<close> raise \<open>OverflowError\<close>. With more than 255
  outputs the count cannot be encoded and both raise: \<open>OverflowError\<close> when the inputs
  are at most 255, the index is in range, the transaction id has no surrogate and the
  output index fits, the error of an earlier operand otherwise. A failed \<open>sign_input\<close>
  leaves the builder as before.
\<close>

theorem count_bytes_bound:
  "(length (inputs self) \<le> 255 \<and> length (outputs self) \<le> 255 \<longrightarrow>
      to_bytes1 (length (inputs self)) = Inr [of_nat (length (inputs self))]
      \<and> to_bytes1 (length (outputs self)) = Inr [of_nat (length (outputs self))]
      \<and> (\<forall>j. resolve_index (length (inputs self)) i = Inr j
               \<and> \<not> list_ex surrogate (in_txid (inputs self ! j))
               \<and> 0 \<le> in_vout (inputs self ! j) \<and> in_vout (inputs self ! j) < 4294967296
             \<longrightarrow> (\<exists>d. create_signature_hash sha self i t = Inr d)))
   \<and> (255 < length (inputs self) \<longrightarrow>
        to_bytes1 (length (inputs self)) = Inl OverflowError
        \<and> create_signature_hash sha self i t = Inl OverflowError
        \<and> sign_input sha lib self i k t = (Inl OverflowError, self))
   \<and> (255 < length (outputs self) \<longrightarrow>
        to_bytes1 (length (outputs self)) = Inl OverflowError
        \<and> (\<exists>e. create_signature_hash sha self i t = Inl e
               \<and> sign_input sha lib self i k t = (Inl e, self))
        \<and> (\<forall>j. length (inputs self) \<le> 255 \<and> resolve_index (length (inputs self)) i = Inr j
               \<and> \<not> list_ex surrogate (in_txid (inputs self ! j))
               \<and> 0 \<le> in_vout (inputs self ! j) \<and> in_vout (inputs self ! j) < 4294967296
             \<longrightarrow> create_signature_hash sha self i t = Inl OverflowError))"
proof (intro conjI impI allI)
  assume "length (inputs self) \<le> 255 \<and> length (outputs self) \<le> 255"
  then show "to_bytes1 (length (inputs self)) = Inr [of_nat (length (inputs self))]"
    and "to_bytes1 (length (outputs self)) = Inr [of_nat (length (outputs self))]"
    by (simp_all add: to_bytes1_def)
next
  fix j
  assume "length (inputs self) \<le> 255 \<and> length (outputs self) \<le> 255"
    and "resolve_index (length (inputs self)) i = Inr j
          \<and> \<not> list_ex surrogate (in_txid (inputs self ! j))
          \<and> 0 \<le> in_vout (inputs self ! j) \<and> in_vout (inputs self ! j) < 4294967296"
  then show "\<exists>d. create_signature_hash sha self i t = Inr d"
    using create_signature_hash_ok[where sha = sha and self = self and i = i and j = j and t = t]
    by simp
next
  assume big: "255 < length (inputs self)"
  then show "to_bytes1 (length (inputs self)) = Inl OverflowError"
    by (simp add: to_bytes1_def)
  from big show dig: "create_signature_hash sha self i t = Inl OverflowError"
    by (rule create_signature_hash_overflow_inputs)
  then show "sign_input sha lib self i k t = (Inl OverflowError, self)"
    by (rule sign_input_digest_error)
next
  assume big: "255 < length (outputs self)"
  then show "to_bytes1 (length (outputs self)) = Inl OverflowError"
    by (simp add: to_bytes1_def)
  from create_signature_hash_overflow_outputs[OF big, where sha = sha and i = i and t = t]
  obtain e where "create_signature_hash sha self i t = Inl e" by blast
  then show "\<exists>e. create_signature_hash sha self i t = Inl e
               \<and> sign_input sha lib self i k t = (Inl e, self)"
    using sign_input_digest_error by blast
next
  fix j
  assume big: "255 < length (outputs self)"
    and "length (inputs self) \<le> 255 \<and> resolve_index (length (inputs self)) i = Inr j
          \<and> \<not> list_ex surrogate (in_txid (inputs self ! j))
          \<and> 0 \<le> in_vout (inputs self ! j) \<and> in_vout (inputs self ! j) < 4294967296"
  then show "create_signature_hash sha self i t = Inl OverflowError"
    by (simp add: create_signature_hash_def to_bytes1_def pack_u32_le_def encode_def)
qed

text \<open>
  The builder of the signing test; the builder with 256 inputs; the builder with one
  input and 256 outputs.
\<close>

theorem count_bytes_bound_witness:
  "length (inputs builder1) \<le> 255 \<and> length (outputs builder1) \<le> 255
   \<and> resolve_index (length (inputs builder1)) 0 = Inr 0
   \<and> \<not> list_ex surrogate (in_txid (inputs builder1 ! 0))
   \<and> 0 \<le> in_vout (inputs builder1 ! 0) \<and> in_vout (inputs builder1 ! 0) < 4294967296
   \<and> to_bytes1 (length (inputs builder1)) = Inr [1]
   \<and> to_bytes1 (length (outputs builder1)) = Inr [1]
   \<and> (\<exists>d. create_signature_hash test_sha256 builder1 0 1 = Inr d)
   \<and> 255 < length (inputs builder256)
   \<and> sign_input test_sha256 test_ecdsa builder256 0 test_key 1 = (Inl OverflowError, builder256)
   \<and> 255 < length (outputs builder_256_outputs)
   \<and> length (inputs builder_256_outputs) \<le> 255
   \<and> resolve_index (length (inputs builder_256_outputs)) 0 = Inr 0
   \<and> \<not> list_ex surrogate (in_txid (inputs builder_256_outputs ! 0))
   \<and> 0 \<le> in_vout (inputs builder_256_outputs ! 0)
   \<and> in_vout (inputs builder_256_outputs ! 0) < 4294967296
   \<and> create_signature_hash test_sha256 builder_256_outputs 0 1 = Inl OverflowError"
proof -
  have small: "length (inputs builder1) \<le> 255 \<and> length (outputs builder1) \<le> 255"
    by (simp add: builder1_simps)
  have idx: "resolve_index (length (inputs builder1)) 0 = Inr 0
      \<and> \<not> list_ex surrogate (in_txid (inputs builder1 ! 0))
      \<and> 0 \<le> in_vout (inputs builder1 ! 0) \<and> in_vout (inputs builder1 ! 0) < 4294967296"
    by (simp add: builder1_simps resolve_index_def py_str_no_surrogate)
  have many_in: "255 < length (inputs builder256)"
    by (simp add: builder256_def)
  have many_out: "255 < length (outputs builder_256_outputs)"
    by (simp add: builder_256_outputs_def)
  have idx_out: "length (inputs builder_256_outputs) \<le> 255
      \<and> resolve_index (length (inputs builder_256_outputs)) 0 = Inr 0
      \<and> \<not> list_ex surrogate (in_txid (inputs builder_256_outputs ! 0))
      \<and> 0 \<le> in_vout (inputs builder_256_outputs ! 0)
      \<and> in_vout (inputs builder_256_outputs ! 0) < 4294967296"
    by (simp add: builder_256_outputs_def add_input_def init_builder_def resolve_index_def
        TransactionInput_def utxo1_def py_str_no_surrogate)
  note at1 = count_bytes_bound[where self = builder1 and sha = test_sha256 and i = 0 and t = 1
      and lib = test_ecdsa and k = test_key]
  note at256 = count_bytes_bound[where self = builder256 and sha = test_sha256 and i = 0
      and t = 1 and lib = test_ecdsa and k = test_key]
  note at_out = count_bytes_bound[where self = builder_256_outputs and sha = test_sha256
      and i = 0 and t = 1 and lib = test_ecdsa and k = test_key]
  have "to_bytes1 (length (inputs builder1)) = Inr [1]"
    and "to_bytes1 (length (outputs builder1)) = Inr [1]"
    using at1 small by (simp_all add: builder1_simps)
  moreover have "\<exists>d. create_signature_hash test_sha256 builder1 0 1 = Inr d"
    using at1 small idx by blast
  moreover have "sign_input test_sha256 test_ecdsa builder256 0 test_key 1
      = (Inl OverflowError, builder256)"
    using at256 many_in by blast
  moreover have "create_signature_hash test_sha256 builder_256_outputs 0 1 = Inl OverflowError"
    using at_out many_out idx_out by blast
  ultimately show ?thesis
    using small idx many_in many_out idx_out by blast
qed

text \<open>
  C10 as stated fails with both counts within a byte: for a builder with one input and
  no output whose output index is \<open>2^32\<close>, index 0 is in range but \<open>struct.pack\<close>
  raises; for one input whose transaction id is a lone surrogate \<open>encode\<close> raises; and
  for the empty builder every index is out of range. So \<open>create_signature_hash\<close> is not
  total there.
\<close>

theorem create_signature_hash_vout_counterexample:
  "length (inputs builder_vout33) \<le> 255 \<and> length (outputs builder_vout33) \<le> 255
   \<and> resolve_index (length (inputs builder_vout33)) 0 = Inr 0
   \<and> create_signature_hash test_sha256 builder_vout33 0 1 = Inl StructError
   \<and> length (inputs builder_surrogate) \<le> 255 \<and> length (outputs builder_surrogate) \<le> 255
   \<and> resolve_index (length (inputs builder_surrogate)) 0 = Inr 0
   \<and> create_signature_hash test_sha256 builder_surrogate 0 1 = Inl UnicodeEncodeError
   \<and> length (inputs init_builder) \<le> 255 \<and> length (outputs init_builder) \<le> 255
   \<and> create_signature_hash test_sha256 init_builder 0 1 = Inl IndexError"
  by (simp add: builder_vout33_def utxo_vout33_def builder_surrogate_def utxo_surrogate_def
      add_input_def init_builder_def TransactionInput_def create_signature_hash_def
      to_bytes1_def pack_u32_le_def resolve_index_def encode_def surrogate_def
      py_str_no_surrogate)

section \<open>Assembly\<close>

text \<open>\<open>hex\<close> gives two characters per byte, each a digit or a lowercase letter \<open>a\<close> to \<open>f\<close>.\<close>

lemma hex_digit_lower: "hex_digit d \<in> set (py_str ''0123456789abcdef'')"
proof -
  have "d mod 16 < length (py_str ''0123456789abcdef'')" by (simp add: py_str_def)
  then show ?thesis unfolding hex_digit_def by (rule nth_mem)
qed

lemma hex_lower: "set (hex bs) \<subseteq> set (py_str ''0123456789abcdef'')"
  unfolding hex_def using hex_digit_lower by (induction bs) auto

lemma length_hex: "length (hex bs) = 2 * length bs"
  by (induction bs) (simp_all add: hex_def)

text \<open>
  C8. For every builder state \<open>build\<close> returns (the function is total) a dictionary
  with \<open>version\<close> 1 and \<open>locktime\<close> 0, one record \<open>txid, vout, script_sig, sequence\<close> per
  input in the order of insertion, with \<open>script_sig\<close> the lowercase hexadecimal text of
  the unlocking script or the empty string when the input is unsigned, and one record
  \<open>amount, script_pubkey\<close> per output in the order of insertion. The builder is as before,
  and a second call returns the same dictionary.
\<close>

theorem build_record:
  "(\<exists>ins outs.
      fst (build self) = VDict [(''version'', VInt 1), (''inputs'', VList ins),
                                (''outputs'', VList outs), (''locktime'', VInt 0)]
      \<and> length ins = length (inputs self)
      \<and> (\<forall>n < length (inputs self).
            ins ! n = VDict [(''txid'', VStr (in_txid (inputs self ! n))),
                             (''vout'', VInt (in_vout (inputs self ! n))),
                             (''script_sig'', VStr (script_sig_hex (script_sig (inputs self ! n)))),
                             (''sequence'', VInt (sequence (inputs self ! n)))])
      \<and> length outs = length (outputs self)
      \<and> (\<forall>n < length (outputs self).
            outs ! n = VDict [(''amount'', VInt (out_amount (outputs self ! n))),
                              (''script_pubkey'', VStr (out_script_pubkey (outputs self ! n)))]))
   \<and> script_sig_hex None = []
   \<and> script_sig_hex (Some bs) = hex bs
   \<and> length (hex bs) = 2 * length bs
   \<and> set (hex bs) \<subseteq> set (py_str ''0123456789abcdef'')
   \<and> snd (build self) = self
   \<and> build (snd (build self)) = build self"
proof -
  have "script_sig_hex (Some bs) = hex bs"
    by (cases bs) (simp_all add: script_sig_hex_def hex_def)
  moreover have "script_sig_hex None = []"
    by (simp add: script_sig_hex_def)
  moreover have "\<exists>ins outs.
      fst (build self) = VDict [(''version'', VInt 1), (''inputs'', VList ins),
                                (''outputs'', VList outs), (''locktime'', VInt 0)]
      \<and> length ins = length (inputs self)
      \<and> (\<forall>n < length (inputs self).
            ins ! n = VDict [(''txid'', VStr (in_txid (inputs self ! n))),
                             (''vout'', VInt (in_vout (inputs self ! n))),
                             (''script_sig'', VStr (script_sig_hex (script_sig (inputs self ! n)))),
                             (''sequence'', VInt (sequence (inputs self ! n)))])
      \<and> length outs = length (outputs self)
      \<and> (\<forall>n < length (outputs self).
            outs ! n = VDict [(''amount'', VInt (out_amount (outputs self ! n))),
                              (''script_pubkey'', VStr (out_script_pubkey (outputs self ! n)))])"
    by (simp add: build_def input_dict_def output_dict_def)
  ultimately show ?thesis
    using length_hex hex_lower by (simp add: build_def)
qed

text \<open>
  The builder of the signing test before signing: one input record with an empty
  \<open>script_sig\<close>, one output record; and the hexadecimal text of three bytes.
\<close>

theorem build_record_witness:
  "0 < length (inputs builder1) \<and> 0 < length (outputs builder1)
   \<and> (\<exists>ins outs.
        fst (build builder1) = VDict [(''version'', VInt 1), (''inputs'', VList ins),
                                      (''outputs'', VList outs), (''locktime'', VInt 0)]
        \<and> length ins = 1
        \<and> ins ! 0 = VDict [(''txid'', VStr (py_str ''abc123def456'')), (''vout'', VInt 0),
                            (''script_sig'', VStr []), (''sequence'', VInt 4294967295)]
        \<and> length outs = 1
        \<and> outs ! 0 = VDict [(''amount'', VInt 50000), (''script_pubkey'', VStr (py_str ''76a914test''))])
   \<and> script_sig_hex (Some [9, 48, 171]) = py_str ''0930ab''
   \<and> snd (build builder1) = builder1
   \<and> build (snd (build builder1)) = build builder1"
proof -
  have n: "0 < length (inputs builder1)" "0 < length (outputs builder1)"
    by (simp_all add: builder1_simps)
  have fields: "script_sig (inputs builder1 ! 0) = None"
    "sequence (inputs builder1 ! 0) = 4294967295"
    "out_amount (outputs builder1 ! 0) = 50000"
    "out_script_pubkey (outputs builder1 ! 0) = py_str ''76a914test''"
    by (simp_all add: builder1_def add_output_def add_input_def init_builder_def
        TransactionInput_def TransactionOutput_def)
  note inst = build_record[of builder1 "[9, 48, 171]"]
  from inst obtain ins outs where
    d: "fst (build builder1) = VDict [(''version'', VInt 1), (''inputs'', VList ins),
                                      (''outputs'', VList outs), (''locktime'', VInt 0)]"
    and li: "length ins = length (inputs builder1)"
    and ni: "\<forall>n < length (inputs builder1).
            ins ! n = VDict [(''txid'', VStr (in_txid (inputs builder1 ! n))),
                             (''vout'', VInt (in_vout (inputs builder1 ! n))),
                             (''script_sig'', VStr (script_sig_hex (script_sig (inputs builder1 ! n)))),
                             (''sequence'', VInt (sequence (inputs builder1 ! n)))]"
    and lo: "length outs = length (outputs builder1)"
    and no: "\<forall>n < length (outputs builder1).
            outs ! n = VDict [(''amount'', VInt (out_amount (outputs builder1 ! n))),
                              (''script_pubkey'', VStr (out_script_pubkey (outputs builder1 ! n)))]"
    by blast
  from inst have none: "script_sig_hex None = []" by blast
  have i0: "ins ! 0 = VDict [(''txid'', VStr (py_str ''abc123def456'')), (''vout'', VInt 0),
                            (''script_sig'', VStr []), (''sequence'', VInt 4294967295)]"
    using ni n(1) by (simp add: builder1_simps fields none)
  have o0: "outs ! 0 = VDict [(''amount'', VInt 50000), (''script_pubkey'', VStr (py_str ''76a914test''))]"
    using no n(2) by (simp add: fields)
  have ex: "\<exists>ins outs.
        fst (build builder1) = VDict [(''version'', VInt 1), (''inputs'', VList ins),
                                      (''outputs'', VList outs), (''locktime'', VInt 0)]
        \<and> length ins = 1
        \<and> ins ! 0 = VDict [(''txid'', VStr (py_str ''abc123def456'')), (''vout'', VInt 0),
                            (''script_sig'', VStr []), (''sequence'', VInt 4294967295)]
        \<and> length outs = 1
        \<and> outs ! 0 = VDict [(''amount'', VInt 50000), (''script_pubkey'', VStr (py_str ''76a914test''))]"
    using d li lo i0 o0 by (simp add: builder1_simps)
  from inst have "script_sig_hex (Some [9, 48, 171]) = hex [9, 48, 171]" by blast
  also have "hex [9, 48, 171] = py_str ''0930ab''"
    by (simp add: hex_def hex_digit_def py_str_def)
  finally have h: "script_sig_hex (Some [9, 48, 171]) = py_str ''0930ab''" .
  from inst have s: "snd (build builder1) = builder1"
    and t: "build (snd (build builder1)) = build builder1"
    by blast+
  show ?thesis
    by (intro conjI n ex h s t)
qed

end
